theory Spec2Isabelle
  imports Complex_Main "HOL-Library.Sublist"
begin

section \<open>The ARIMA demo of the tutorial notebook\<close>

text \<open>
  The notebook \<^verbatim>\<open>Section_1_Introduction_tutorial.ipynb\<close> defines two functions in
  section 1.3: \<^verbatim>\<open>generate_arima_data\<close>, which draws a synthetic series, and
  \<^verbatim>\<open>arima_data\<close>, the callback of the slider widget, which generates a series, decides
  whether to fit a SARIMAX model, and asks the fitted model for predictions.

  Both functions are glue over numpy, pandas and statsmodels. The embedding keeps the
  notebook's own control flow and data flow and treats the libraries as follows.
  \<^item> The results of library routines whose values the notebook cannot influence
    (the random generator, \<^verbatim>\<open>arma_generate_sample\<close>, the stationarity and invertibility
    tests of \<^verbatim>\<open>ArmaProcess\<close>, the \<^verbatim>\<open>loglikelihood_burn\<close> of a fit) are parameters,
    collected in the record \<open>libs\<close>.
  \<^item> Array operations whose result the notebook's own lines determine (\<^verbatim>\<open>np.r_\<close>,
    \<^verbatim>\<open>np.repeat\<close>, \<^verbatim>\<open>np.cumsum\<close>, slicing, \<^verbatim>\<open>df.index[k]\<close>, month offsets) are
    written out, with the exceptions they raise.
  \<^item> Every \<^verbatim>\<open>print\<close> and every call into numpy's generator constructor, pandas'
    \<^verbatim>\<open>date_range\<close>, statsmodels and matplotlib is recorded in a list of events, in program
    order; the statsmodels calls carry their arguments.
  \<^item> \<open>arima_data\<close> is the run in which every recorded call returns.
    \<open>arima_data_observed\<close> takes, in addition, what each call raises: the source has no
    \<^verbatim>\<open>try\<close>, so the first call that raises ends the run with its exception.
  \<^item> The generator is written for any number type that has the operations it uses.
    Exact statements instantiate it with \<open>real\<close>; statements about rounding
    instantiate it with the model \<open>f64\<close> of binary64 below.
\<close>

subsection \<open>numpy and Python sequence operations\<close>

text \<open>
  \<^verbatim>\<open>np.cumsum\<close> of a one-dimensional array: the first element is copied, every later
  element is the previous output plus the next input, added left to right.
\<close>

fun cumsum_from :: "'a::plus \<Rightarrow> 'a list \<Rightarrow> 'a list" where
  "cumsum_from acc [] = []"
| "cumsum_from acc (x # xs) = (acc + x) # cumsum_from (acc + x) xs"

fun np_cumsum :: "'a::plus list \<Rightarrow> 'a list" where
  "np_cumsum [] = []"
| "np_cumsum (x # xs) = x # cumsum_from x xs"

text \<open>\<^verbatim>\<open>np.repeat(v, n)\<close> for a scalar \<open>v\<close>.\<close>

definition np_repeat :: "'a \<Rightarrow> nat \<Rightarrow> 'a list" where
  "np_repeat v n = replicate n v"

text \<open>
  Elementwise \<^verbatim>\<open>+\<close> of two arrays. It is only applied to two arrays of \<^verbatim>\<open>n_samp\<close>
  elements each, so no broadcasting takes place.
\<close>

definition np_add :: "'a::plus list \<Rightarrow> 'a list \<Rightarrow> 'a list" where
  "np_add xs ys = map2 (+) xs ys"

text \<open>
  The slice \<^verbatim>\<open>xs[:k]\<close> (also \<^verbatim>\<open>df.iloc[:k]\<close>): the first \<open>k\<close> elements, and for a
  negative \<open>k\<close> all but the last \<open>-k\<close>. A slice never raises.
\<close>

definition py_prefix :: "'a list \<Rightarrow> int \<Rightarrow> 'a list" where
  "py_prefix xs k = (if 0 \<le> k then take (nat k) xs else take (nat (int (length xs) + k)) xs)"

subsection \<open>Binary64 arithmetic\<close>

text \<open>
  numpy computes in IEEE 754 binary64. \<open>F64 m e\<close> is the number \<open>m * 2 ^ e\<close>, kept in
  the form where \<open>m\<close> is odd (or \<open>m = 0\<close> and \<open>e = 0\<close>), so that equal numbers are equal
  terms. A sum or difference is the exact result rounded to 53 significant bits, ties to
  even. Overflow to infinity, subnormal numbers, the sign of zero and NaN are not
  modelled; the model is used on the values \<open>0.1\<close> to \<open>0.3\<close> only.
\<close>

datatype f64 = F64 int int

function bit_length :: "int \<Rightarrow> int" where
  "bit_length m = (if m \<le> 0 then 0 else 1 + bit_length (m div 2))"
  by pat_completeness auto
termination
  by (relation "measure nat") auto

declare bit_length.simps [simp del]

function pow2 :: "int \<Rightarrow> int" where
  "pow2 k = (if k \<le> 0 then 1 else 2 * pow2 (k - 1))"
  by pat_completeness auto
termination
  by (relation "measure nat") auto

declare pow2.simps [simp del]

function normalise :: "int \<Rightarrow> int \<Rightarrow> f64" where
  "normalise m e =
     (if m = 0 then F64 0 0 else if even m then normalise (m div 2) (e + 1) else F64 m e)"
  by pat_completeness auto
termination
  by (relation "measure (\<lambda>(m, e). nat \<bar>m\<bar>)") auto

declare normalise.simps [simp del]

text \<open>\<open>m / 2 ^ k\<close> rounded to the nearest integer, a tie going to the even one.\<close>

definition round_half_even :: "int \<Rightarrow> int \<Rightarrow> int" where
  "round_half_even m k =
     (let q = m div pow2 k; r = m mod pow2 k
      in if 2 * r > pow2 k \<or> (2 * r = pow2 k \<and> odd q) then q + 1 else q)"

text \<open>The binary64 number nearest to \<open>m * 2 ^ e\<close>.\<close>

definition fl :: "int \<Rightarrow> int \<Rightarrow> f64" where
  "fl m e = (let k = max 0 (bit_length \<bar>m\<bar> - 53) in normalise (round_half_even m k) (e + k))"

instantiation f64 :: "{zero,one,plus,minus,uminus}"
begin

definition zero_f64 :: f64 where
  "zero_f64 = F64 0 0"

definition one_f64 :: f64 where
  "one_f64 = F64 1 0"

fun plus_f64 :: "f64 \<Rightarrow> f64 \<Rightarrow> f64" where
  "plus_f64 (F64 m1 e1) (F64 m2 e2) =
     (let e = min e1 e2 in fl (m1 * pow2 (e1 - e) + m2 * pow2 (e2 - e)) e)"

fun minus_f64 :: "f64 \<Rightarrow> f64 \<Rightarrow> f64" where
  "minus_f64 (F64 m1 e1) (F64 m2 e2) =
     (let e = min e1 e2 in fl (m1 * pow2 (e1 - e) - m2 * pow2 (e2 - e)) e)"

fun uminus_f64 :: "f64 \<Rightarrow> f64" where
  "uminus_f64 (F64 m e) = F64 (- m) e"

instance ..

end

text \<open>
  The model agrees with binary64 where a result is zero or of normal size, between
  \<open>2 ^ -1022\<close> and \<open>2 ^ 1024\<close>.
\<close>

definition binary64_normal :: "f64 \<Rightarrow> bool" where
  "binary64_normal x =
     (case x of F64 m e \<Rightarrow>
        m = 0 \<or> (\<bar>m\<bar> < 9007199254740992 \<and> - 1021 \<le> e + bit_length \<bar>m\<bar>
                 \<and> e + bit_length \<bar>m\<bar> \<le> 1024))"

text \<open>The number a term of \<open>f64\<close> stands for.\<close>

definition f64_value :: "f64 \<Rightarrow> real" where
  "f64_value x = (case x of F64 m e \<Rightarrow> of_int m * 2 powi e)"

text \<open>
  The Python literal \<^verbatim>\<open>0.1\<close> is the binary64 number \<open>3602879701896397 / 2 ^ 55\<close>
  (\<^verbatim>\<open>(0.1).as_integer_ratio()\<close>).
\<close>

definition tenth :: f64 where
  "tenth = F64 3602879701896397 (-55)"

subsection \<open>The libraries\<close>

text \<open>
  \<open>'a\<close> is the number type, \<open>'s\<close> the state of a \<^verbatim>\<open>np.random.RandomState\<close>.
  \<^item> \<open>RandomState seed\<close>: the generator \<^verbatim>\<open>np.random.RandomState(seed)\<close>, for a seed
    numpy accepts (\<open>0 .. 2^32 - 1\<close>; the slider offers \<open>0 .. 10000\<close>).
  \<^item> \<open>arma_generate_sample ar ma nsample sigma rng burnin i\<close>: element \<open>i\<close> of the array
    \<^verbatim>\<open>sm.tsa.arma_generate_sample(ar, ma, nsample, sigma=sigma, distrvs=rng.randn, burnin=burnin)\<close>,
    which has \<open>nsample\<close> elements.
  \<^item> \<open>isstationary ar ma\<close>, \<open>isinvertible ar ma\<close>: the two properties of
    \<^verbatim>\<open>sm.tsa.ArmaProcess(ar, ma)\<close>.
  \<^item> \<open>loglikelihood_burn training order\<close>: the attribute of that name of the result of
    fitting \<^verbatim>\<open>SARIMAX(training, order=order, ...)\<close>.
\<close>

record ('a, 's) libs =
  RandomState :: "int \<Rightarrow> 's"
  arma_generate_sample :: "'a list \<Rightarrow> 'a list \<Rightarrow> nat \<Rightarrow> 'a \<Rightarrow> 's \<Rightarrow> nat \<Rightarrow> nat \<Rightarrow> 'a"
  isstationary :: "'a list \<Rightarrow> 'a list \<Rightarrow> bool"
  isinvertible :: "'a list \<Rightarrow> 'a list \<Rightarrow> bool"
  loglikelihood_burn :: "'a list \<Rightarrow> int \<times> int \<times> int \<Rightarrow> int"

text \<open>
  A date on the monthly index is written to the estimator as \<^verbatim>\<open>'%Y-%m-%d'\<close>; the
  model keeps year, month and day.
\<close>

type_synonym ymd = "int \<times> int \<times> int"

text \<open>What the two functions print and which library calls they make.\<close>

datatype 'a event =
    ArmaProcess "'a list" "'a list" nat
  | Print_stationary bool
  | Print_invertible bool
  | Arma_generate_sample "'a list" "'a list" nat 'a nat
  | Print_generated int int int
  | Print_coeff "'a list" "'a list"
  | Print_fit int int int
  | SARIMAX "'a list" "int \<times> int \<times> int" string bool bool
  | Fit
  | Get_prediction ymd ymd bool
  | Conf_int 'a
  | Print_summary
  | RandomState_call int
  | Date_range nat
  | Draw string

subsection \<open>\<^verbatim>\<open>generate_arima_data\<close>\<close>

text \<open>
  The parameters follow the source; \<open>fresh\<close> is added: the state that
  \<^verbatim>\<open>np.random.RandomState()\<close>, seeded by the operating system, would have at this call.
  \<open>i_order\<close> is a Python integer: \<^verbatim>\<open>range(i_order)\<close> is empty when it is negative. The
  result is the events of the call and the returned array \<open>y\<close>.
\<close>

definition generate_arima_data ::
  "('a::{one,plus,uminus}, 's) libs \<Rightarrow> 's \<Rightarrow> 'a list \<Rightarrow> 'a list \<Rightarrow> int \<Rightarrow> nat \<Rightarrow> 's option \<Rightarrow>
     'a \<Rightarrow> nat \<Rightarrow> 'a option \<Rightarrow> bool \<Rightarrow> 'a event list \<times> 'a list" where
  "generate_arima_data L fresh arparams maparams i_order n_samp rng_state sigma burnin
       lin_trend verbose =
     (let rng = (case rng_state of None \<Rightarrow> fresh | Some r \<Rightarrow> r);
          ar = 1 # map uminus arparams;
          ma = 1 # maparams;
          report = (if verbose
                    then [ArmaProcess ar ma n_samp,
                          Print_stationary (isstationary L ar ma),
                          Print_invertible (isinvertible L ar ma)]
                    else []);
          y0 = map (arma_generate_sample L ar ma n_samp sigma rng burnin) [0..<n_samp];
          y1 = (case lin_trend of
                  None \<Rightarrow> y0
                | Some t \<Rightarrow> np_add y0 (np_cumsum (np_repeat t n_samp)));
          y2 = (np_cumsum ^^ nat i_order) y1
      in (report @ [Arma_generate_sample ar ma n_samp sigma burnin], y2))"

subsection \<open>\<^verbatim>\<open>arima_data\<close>\<close>

text \<open>
  The keyword arguments of \<^verbatim>\<open>arima_data\<close>. \<^verbatim>\<open>n_samp\<close> is a number of samples; the
  other integers are Python integers, since the function slices and indexes with them.
\<close>

record arima_args =
  n_samp :: nat
  ar_order :: int
  ar_lag1 :: real
  ar_lag2 :: real
  ar_lag3 :: real
  ar_lag4 :: real
  i_order :: int
  ma_order :: int
  ma_lag1 :: real
  ma_lag2 :: real
  ma_lag3 :: real
  ma_lag4 :: real
  rand_state :: int
  ylim :: int
  p :: int
  d :: int
  q :: int
  n_train :: int
  n_forecast :: int
  dynamic :: bool
  lin_trend :: "real option"
  verbose :: bool

text \<open>
  \<^verbatim>\<open>IndexError\<close> and \<^verbatim>\<open>OutOfBoundsDatetime\<close> come from the driver's own index and date
  arithmetic; \<open>Raised_by_library\<close> stands for an exception raised inside a recorded call.
\<close>

datatype py_error = IndexError | OutOfBoundsDatetime | Raised_by_library string

text \<open>
  \<^verbatim>\<open>df.index\<close> is \<^verbatim>\<open>pd.date_range(start='1990-01-01', freq='MS', periods=len(y))\<close>: entry
  \<open>k\<close> is the first day of the month \<open>k\<close> months after January 1990. A timestamp of
  this kind is represented by that number of months. \<^verbatim>\<open>df.index[k]\<close> counts a negative
  \<open>k\<close> from the end and raises \<^verbatim>\<open>IndexError\<close> out of range. The construction of the
  index is the recorded call \<open>Date_range\<close>; pandas refuses it when the index would pass
  April 2262, that is for more than 3268 entries.
\<close>

definition df_index :: "nat \<Rightarrow> int \<Rightarrow> py_error + int" where
  "df_index len k =
     (if 0 \<le> k \<and> k < int len then Inr k
      else if - int len \<le> k \<and> k < 0 then Inr (int len + k)
      else Inl IndexError)"

text \<open>
  \<^verbatim>\<open>t + pd.DateOffset(months=k)\<close> for a first-of-month timestamp \<open>t\<close>. pandas timestamps lie
  between 1677-09-21 and 2262-04-11; the first-of-month dates among them are October 1677
  (\<open>-3747\<close> months from January 1990) to April 2262 (\<open>3267\<close> months). Outside, the
  addition raises.
\<close>

definition add_months :: "int \<Rightarrow> int \<Rightarrow> py_error + int" where
  "add_months t k =
     (if - 3747 \<le> t + k \<and> t + k \<le> 3267 then Inr (t + k) else Inl OutOfBoundsDatetime)"

text \<open>\<^verbatim>\<open>strftime('%Y-%m-%d')\<close> of a timestamp.\<close>

definition strftime :: "int \<Rightarrow> ymd" where
  "strftime m = (1990 + m div 12, m mod 12 + 1, 1)"

text \<open>
  The two lines
  \<^verbatim>\<open>pred_begin = df.index[results.loglikelihood_burn]\<close> and
  \<^verbatim>\<open>pred_end = df.index[n_train] + pd.DateOffset(months = n_forecast - 1)\<close>,
  for an index of \<open>len\<close> entries.
\<close>

definition prediction_span :: "nat \<Rightarrow> int \<Rightarrow> int \<Rightarrow> int \<Rightarrow> py_error + int \<times> int" where
  "prediction_span len burn ntrain nforecast =
     (case df_index len burn of
        Inl e \<Rightarrow> Inl e
      | Inr pred_begin \<Rightarrow>
          (case df_index len ntrain of
             Inl e \<Rightarrow> Inl e
           | Inr t \<Rightarrow>
               (case add_months t (nforecast - 1) of
                  Inl e \<Rightarrow> Inl e
                | Inr pred_end \<Rightarrow> Inr (pred_begin, pred_end))))"

text \<open>The condition of the \<^verbatim>\<open>if\<close> that sets \<^verbatim>\<open>fitting=True\<close>.\<close>

definition fit_gate :: "arima_args \<Rightarrow> bool" where
  "fit_gate a \<longleftrightarrow>
     ((ar_order a > 0 \<and> ar_lag1 a \<noteq> 0) \<or> (ma_order a > 0 \<and> ma_lag1 a \<noteq> 0))
     \<and> (p a > 0 \<or> q a > 0)"

text \<open>
  A run of \<^verbatim>\<open>arima_data\<close> in which every recorded call returns: its events, the
  generated array, the variable \<^verbatim>\<open>fitting\<close>, and the exception that the index and date
  arithmetic ended it with, if any.
\<close>

record 'a run =
  events :: "'a event list"
  series :: "'a list"
  fitting :: bool
  raised :: "py_error option"

definition arima_data :: "(real, 's) libs \<Rightarrow> 's \<Rightarrow> arima_args \<Rightarrow> real run" where
  "arima_data L fresh a =
     (let rng_state = RandomState L (rand_state a);
          arparams = py_prefix [ar_lag1 a, ar_lag2 a, ar_lag3 a, ar_lag4 a] (ar_order a);
          maparams = py_prefix [ma_lag1 a, ma_lag2 a, ma_lag3 a, ma_lag4 a] (ma_order a);
          head = [RandomState_call (rand_state a),
                  Print_generated (ar_order a) (i_order a) (ma_order a),
                  Print_coeff arparams maparams];
          (gen_events, y) = generate_arima_data L fresh arparams maparams (i_order a)
                              (n_samp a) (Some rng_state) 1 10 (lin_trend a) (verbose a);
          pre = head @ gen_events @
                [Date_range (length y), Draw ''subplots'', Draw ''plot'', Draw ''plot'']
      in if fit_gate a then
           (let training = py_prefix y (n_train a);
                trend = (if (case lin_trend a of None \<Rightarrow> False | Some t \<Rightarrow> t > 0)
                         then ''n'' else ''n'');
                fit_events = [Print_fit (p a) (d a) (q a),
                              SARIMAX training (p a, d a, q a) trend False False,
                              Fit];
                burn = loglikelihood_burn L training (p a, d a, q a)
            in case prediction_span (length y) burn (n_train a) (n_forecast a) of
                 Inl e \<Rightarrow>
                   \<lparr>events = pre @ fit_events, series = y, fitting = True, raised = Some e\<rparr>
               | Inr (pred_begin, pred_end) \<Rightarrow>
                   \<lparr>events = pre @ fit_events @
                      [Get_prediction (strftime pred_begin) (strftime pred_end) (dynamic a),
                       Conf_int (5 / 100),
                       Draw ''plot'', Draw ''fill_between'', Draw ''plot'', Draw ''set_xlim'',
                       Draw ''set_title'', Draw ''axhline'',
                       Draw ''set_ylim'', Draw ''legend'',
                       Draw ''fill_betweenx'', Draw ''fill_betweenx'', Draw ''show'',
                       Print_summary],
                    series = y, fitting = True, raised = None\<rparr>)
         else \<lparr>events = pre @ [Draw ''set_ylim'', Draw ''legend''], series = y,
               fitting = False, raised = None\<rparr>)"

text \<open>
  The run as it is observed when calls may raise. \<open>R i e\<close> is the exception, if any, that
  the \<open>i\<close>-th recorded call, \<open>e\<close>, raises. The calls made are those up to and including
  the first that raises.
\<close>

fun calls_until_raise ::
  "(nat \<Rightarrow> 'a event \<Rightarrow> py_error option) \<Rightarrow> nat \<Rightarrow> 'a event list \<Rightarrow> 'a event list \<times> py_error option"
  where
  "calls_until_raise R i [] = ([], None)"
| "calls_until_raise R i (e # es) =
     (case R i e of
        Some x \<Rightarrow> ([e], Some x)
      | None \<Rightarrow> (e # fst (calls_until_raise R (Suc i) es),
                 snd (calls_until_raise R (Suc i) es)))"

record 'a outcome =
  calls :: "'a event list"
  exception :: "py_error option"

text \<open>
  In \<open>arima_data\<close> an exception of the index and date arithmetic comes after the last
  recorded call, so a call that raises comes first.
\<close>


definition arima_data_observed ::
  "(nat \<Rightarrow> real event \<Rightarrow> py_error option) \<Rightarrow> (real, 's) libs \<Rightarrow> 's \<Rightarrow> arima_args \<Rightarrow> real outcome"
  where
  "arima_data_observed R L fresh a =
     (let c = calls_until_raise R 0 (events (arima_data L fresh a))
      in \<lparr>calls = fst c,
          exception = (case snd c of
                         Some x \<Rightarrow> Some x
                       | None \<Rightarrow> raised (arima_data L fresh a))\<rparr>)"

subsection \<open>Reading the events\<close>

text \<open>The calls to the estimator, in order.\<close>

fun is_estimator_call :: "'a event \<Rightarrow> bool" where
  "is_estimator_call (SARIMAX tr ord tnd es ei) = True"
| "is_estimator_call Fit = True"
| "is_estimator_call (Get_prediction s e dy) = True"
| "is_estimator_call (Conf_int al) = True"
| "is_estimator_call _ = False"

definition estimator_calls :: "'a event list \<Rightarrow> 'a event list" where
  "estimator_calls evs = filter is_estimator_call evs"



text \<open>
  Of every \<^verbatim>\<open>SARIMAX(...)\<close> call: the arguments \<^verbatim>\<open>trend\<close>,
  \<^verbatim>\<open>enforce_stationarity\<close> and \<^verbatim>\<open>enforce_invertibility\<close>.
\<close>

fun sarimax_settings :: "'a event list \<Rightarrow> (string \<times> bool \<times> bool) list" where
  "sarimax_settings [] = []"
| "sarimax_settings (SARIMAX tr ord tnd es ei # evs) = (tnd, es, ei) # sarimax_settings evs"
| "sarimax_settings (_ # evs) = sarimax_settings evs"

text \<open>Of every \<^verbatim>\<open>arma_generate_sample\<close> call: the arguments \<^verbatim>\<open>ar\<close> and \<^verbatim>\<open>ma\<close>.\<close>

fun simulation_polys :: "'a event list \<Rightarrow> ('a list \<times> 'a list) list" where
  "simulation_polys [] = []"
| "simulation_polys (Arma_generate_sample ar ma n sg b # evs) = (ar, ma) # simulation_polys evs"
| "simulation_polys (_ # evs) = simulation_polys evs"

text \<open>Of every \<^verbatim>\<open>get_prediction\<close> call: \<^verbatim>\<open>start\<close>, \<^verbatim>\<open>end\<close> and \<^verbatim>\<open>dynamic\<close>.\<close>

fun prediction_requests :: "'a event list \<Rightarrow> (ymd \<times> ymd \<times> bool) list" where
  "prediction_requests [] = []"
| "prediction_requests (Get_prediction s e dy # evs) = (s, e, dy) # prediction_requests evs"
| "prediction_requests (_ # evs) = prediction_requests evs"

subsection \<open>Notions of the specification\<close>

text \<open>
  These two definitions follow the words of the specification, not the source; they are
  what the source is compared with.

  The backward difference of a series, \<open>y\<^sub>t - y\<^sub>t\<^sub>-\<^sub>1\<close>, with \<open>0\<close> before the first
  element, so that it keeps the length of the series.
\<close>

fun diff_from :: "'a::minus \<Rightarrow> 'a list \<Rightarrow> 'a list" where
  "diff_from prev [] = []"
| "diff_from prev (x # xs) = (x - prev) # diff_from x xs"

definition backward_diff :: "'a::{zero,minus} list \<Rightarrow> 'a list" where
  "backward_diff xs = diff_from 0 xs"

text \<open>
  The gate as the specification words it: some coefficient used for generation, at any
  lag up to the declared order, is nonzero, and one of the model orders is positive.
\<close>

definition spec_gate :: "arima_args \<Rightarrow> bool" where
  "spec_gate a \<longleftrightarrow>
     list_ex (\<lambda>c. c \<noteq> 0)
       (py_prefix [ar_lag1 a, ar_lag2 a, ar_lag3 a, ar_lag4 a] (ar_order a)
        @ py_prefix [ma_lag1 a, ma_lag2 a, ma_lag3 a, ma_lag4 a] (ma_order a))
     \<and> (p a > 0 \<or> q a > 0)"

subsection \<open>Concrete inputs\<close>

text \<open>
  A fixed instance of the libraries for statements about concrete inputs: the state of a
  generator is its seed, every simulated sample is \<open>0\<close>, every process is reported
  stationary and invertible, and a fit burns one observation. None of the general
  theorems depends on it.
\<close>

definition quiet_libs :: "('a::zero, int) libs" where
  "quiet_libs =
     \<lparr>RandomState = (\<lambda>seed. seed),
      arma_generate_sample = (\<lambda>ar ma nsample sigma rng burnin i. 0),
      isstationary = (\<lambda>ar ma. True),
      isinvertible = (\<lambda>ar ma. True),
      loglikelihood_burn = (\<lambda>training order. 1)\<rparr>"

text \<open>
  A second instance, in which every simulated sample repeats the state of the generator
  that was handed to the simulation: the series shows which generator was used.
\<close>

definition seed_echo_libs :: "(real, int) libs" where
  "seed_echo_libs =
     quiet_libs\<lparr>arma_generate_sample := (\<lambda>ar ma nsample sigma rng burnin i. of_int rng)\<rparr>"

text \<open>
  Outcomes of the recorded calls: no call raises; the call of \<^verbatim>\<open>fit\<close> raises; the
  constructor of the estimator raises.
\<close>

definition none_raises :: "nat \<Rightarrow> 'a event \<Rightarrow> py_error option" where
  "none_raises i e = None"



text \<open>The default values in the signature of \<^verbatim>\<open>arima_data\<close>.\<close>

definition default_args :: arima_args where
  "default_args =
     \<lparr>n_samp = 120, ar_order = 0, ar_lag1 = 0, ar_lag2 = 0, ar_lag3 = 0, ar_lag4 = 0,
      i_order = 0, ma_order = 0, ma_lag1 = 0, ma_lag2 = 0, ma_lag3 = 0, ma_lag4 = 0,
      rand_state = 42, ylim = 5, p = 0, d = 0, q = 0, n_train = 108, n_forecast = 24,
      dynamic = False, lin_trend = None, verbose = True\<rparr>"

text \<open>An AR(1) series with coefficient \<open>0.5\<close>, fitted by an AR(1) model.\<close>

definition ar1_args :: arima_args where
  "ar1_args = default_args\<lparr>ar_order := 1, ar_lag1 := 1 / 2, p := 1\<rparr>"



section \<open>The binary64 model rounds to nearest, ties to even\<close>

text \<open>
  \<open>normalise\<close> keeps the value; \<open>fl\<close> returns a number with at most 53 significant
  bits, within half a unit in the last place of its argument, and the even neighbour at
  a tie; \<open>+\<close> and \<open>-\<close> apply \<open>fl\<close> to the exact sum and difference.
\<close>

lemma f64_value_normalise: "f64_value (normalise m e) = of_int m * 2 powi e"
proof (induction m e rule: normalise.induct)
  case (1 m e)
  show ?case
  proof (cases "m = 0")
    case True
    then show ?thesis by (simp add: normalise.simps f64_value_def)
  next
    case False
    show ?thesis
    proof (cases "even m")
      case True
      then obtain h where h: "m = 2 * h" by (auto elim: evenE)
      have "f64_value (normalise m e) = f64_value (normalise (m div 2) (e + 1))"
        using False True by (subst normalise.simps) simp
      also have "\<dots> = of_int (m div 2) * 2 powi (e + 1)"
        using "1.IH" False True by simp
      also have "\<dots> = of_int m * 2 powi e"
        using h by (simp add: power_int_add)
      finally show ?thesis .
    next
      case odd: False
      then show ?thesis using False by (simp add: normalise.simps f64_value_def)
    qed
  qed
qed

lemma pow2_eq: "0 \<le> k \<Longrightarrow> pow2 k = 2 ^ nat k"
proof (induction k rule: pow2.induct)
  case (1 k)
  show ?case
  proof (cases "k \<le> 0")
    case True
    then show ?thesis using "1.prems" by (simp add: pow2.simps)
  next
    case False
    then have "pow2 k = 2 * pow2 (k - 1)" by (subst pow2.simps) simp
    also have "\<dots> = 2 * 2 ^ nat (k - 1)" using "1.IH" False by simp
    also have "\<dots> = 2 ^ nat k"
      using False by (simp add: nat_diff_distrib' flip: power_Suc)
    finally show ?thesis .
  qed
qed

lemma bit_length_nonneg: "0 \<le> bit_length m"
proof (induction m rule: bit_length.induct)
  case (1 m)
  show ?case
  proof (cases "m \<le> 0")
    case True
    then show ?thesis by (simp add: bit_length.simps)
  next
    case False
    then have "bit_length m = 1 + bit_length (m div 2)" by (subst bit_length.simps) simp
    then show ?thesis using "1.IH" False by simp
  qed
qed

lemma bit_length_bound: "0 \<le> m \<Longrightarrow> m < 2 ^ nat (bit_length m)"
proof (induction m rule: bit_length.induct)
  case (1 m)
  show ?case
  proof (cases "m \<le> 0")
    case True
    then show ?thesis using "1.prems" by (simp add: bit_length.simps)
  next
    case False
    have b: "bit_length m = 1 + bit_length (m div 2)"
      using False by (subst bit_length.simps) simp
    have nn: "0 \<le> bit_length (m div 2)"
      by (rule bit_length_nonneg)
    have ih: "m div 2 < 2 ^ nat (bit_length (m div 2))"
      using "1.IH" False by simp
    have "m < 2 * 2 ^ nat (bit_length (m div 2))"
      using ih by linarith
    also have "\<dots> = 2 ^ nat (bit_length m)"
      using b nn by (simp add: nat_add_distrib)
    finally show ?thesis .
  qed
qed

lemma fl_exact:
  assumes "bit_length \<bar>m\<bar> \<le> 53"
  shows "f64_value (fl m e) = of_int m * 2 powi e"
proof -
  have k: "max 0 (bit_length \<bar>m\<bar> - 53) = 0"
    using assms by simp
  have r: "round_half_even m 0 = m"
    by (simp add: round_half_even_def pow2.simps)
  show ?thesis
    by (simp add: fl_def k r f64_value_normalise)
qed


lemma round_half_even_nearest:
  assumes "0 \<le> k"
  shows "2 * \<bar>round_half_even m k * 2 ^ nat k - m\<bar> \<le> 2 ^ nat k"
proof -
  define P :: int where "P = 2 ^ nat k"
  have P: "0 < P" by (simp add: P_def)
  have p: "pow2 k = P" using assms by (simp add: pow2_eq P_def)
  have d: "m = (m div P) * P + m mod P" by simp
  have r: "0 \<le> m mod P" "m mod P < P" using P by simp_all
  show ?thesis
  proof (cases "2 * (m mod P) > P \<or> (2 * (m mod P) = P \<and> odd (m div P))")
    case True
    then have "round_half_even m k = m div P + 1"
      by (simp add: round_half_even_def p Let_def)
    then have "round_half_even m k * P - m = P - m mod P"
      using d by (simp add: algebra_simps)
    then show ?thesis using True r by (auto simp flip: P_def)
  next
    case False
    then have "round_half_even m k = m div P"
      by (simp add: round_half_even_def p Let_def)
    then have "round_half_even m k * P - m = - (m mod P)"
      using d by (simp add: algebra_simps)
    then show ?thesis using False r by (auto simp flip: P_def)
  qed
qed

lemma round_half_even_tie:
  assumes "0 \<le> k" and "2 * (m mod 2 ^ nat k) = 2 ^ nat k"
  shows "even (round_half_even m k)"
  using assms by (simp add: round_half_even_def pow2_eq Let_def)

lemma int_div_less:
  fixes P :: int
  assumes "0 < P" and "m < c * P"
  shows "m div P < c"
proof -
  have "m = (m div P) * P + m mod P" by simp
  moreover have "0 \<le> m mod P" using assms(1) by simp
  ultimately have "(m div P) * P \<le> m" by linarith
  then have "(m div P) * P < c * P" using assms(2) by linarith
  then show ?thesis using assms(1) by (simp add: mult_less_cancel_right)
qed

lemma int_le_div:
  fixes P :: int
  assumes "0 < P" and "c * P \<le> m"
  shows "c \<le> m div P"
proof -
  have e: "(m div P) * P + m mod P = m" by simp
  have r: "m mod P < P" using assms(1) by simp
  have "(m div P + 1) * P = (m div P) * P + P" by (simp add: algebra_simps)
  then have "m < (m div P + 1) * P" using e r by linarith
  then have "c * P < (m div P + 1) * P" using assms(2) by linarith
  then have "c < m div P + 1" using assms(1) by (simp add: mult_less_cancel_right)
  then show ?thesis by simp
qed

lemma round_half_even_53_bits:
  "\<bar>round_half_even m (max 0 (bit_length \<bar>m\<bar> - 53))\<bar> \<le> 2 ^ 53"
proof -
  define k where "k = max 0 (bit_length \<bar>m\<bar> - 53)"
  define P :: int where "P = 2 ^ nat k"
  have k0: "0 \<le> k" by (simp add: k_def)
  have P: "0 < P" by (simp add: P_def)
  have p: "pow2 k = P" using k0 by (simp add: pow2_eq P_def)
  have "nat (bit_length \<bar>m\<bar>) \<le> 53 + nat k"
    by (simp add: k_def)
  then have "(2::int) ^ nat (bit_length \<bar>m\<bar>) \<le> 2 ^ (53 + nat k)"
    by (rule power_increasing) simp
  moreover have "\<bar>m\<bar> < 2 ^ nat (bit_length \<bar>m\<bar>)"
    by (rule bit_length_bound) simp
  ultimately have "\<bar>m\<bar> < 2 ^ (53 + nat k)" by linarith
  then have b: "\<bar>m\<bar> < 2 ^ 53 * P" by (simp add: power_add P_def)
  have hi: "m div P < 2 ^ 53"
    using P b by (intro int_div_less) auto
  have lo: "- (2 ^ 53) \<le> m div P"
    using P b by (intro int_le_div) auto
  have "round_half_even m k = m div P \<or> round_half_even m k = m div P + 1"
    by (simp add: round_half_even_def p Let_def)
  then show ?thesis
    using hi lo by (auto simp flip: k_def)
qed

lemma fl_value:
  "f64_value (fl m e) =
     of_int (round_half_even m (max 0 (bit_length \<bar>m\<bar> - 53)))
       * 2 powi (e + max 0 (bit_length \<bar>m\<bar> - 53))"
  by (simp add: fl_def Let_def f64_value_normalise)

lemma plus_f64_rounds_exact_sum:
  "F64 m1 e1 + F64 m2 e2 =
     fl (m1 * 2 ^ nat (e1 - min e1 e2) + m2 * 2 ^ nat (e2 - min e1 e2)) (min e1 e2)
   \<and> of_int (m1 * 2 ^ nat (e1 - min e1 e2) + m2 * 2 ^ nat (e2 - min e1 e2)) * 2 powi (min e1 e2)
     = f64_value (F64 m1 e1) + f64_value (F64 m2 e2)"
proof -
  have a: "(2::real) ^ nat (e1 - min e1 e2) * 2 powi (min e1 e2) = 2 powi e1"
    by (simp add: power_int_add [symmetric] flip: power_int_of_nat)
  have b: "(2::real) ^ nat (e2 - min e1 e2) * 2 powi (min e1 e2) = 2 powi e2"
    by (simp add: power_int_add [symmetric] flip: power_int_of_nat)
  have "of_int (m1 * 2 ^ nat (e1 - min e1 e2) + m2 * 2 ^ nat (e2 - min e1 e2)) * 2 powi (min e1 e2)
      = of_int m1 * ((2::real) ^ nat (e1 - min e1 e2) * 2 powi (min e1 e2))
        + of_int m2 * ((2::real) ^ nat (e2 - min e1 e2) * 2 powi (min e1 e2))"
    by (simp add: algebra_simps)
  then show ?thesis
    by (simp add: a b f64_value_def Let_def pow2_eq)
qed

lemma minus_f64_rounds_exact_difference:
  "F64 m1 e1 - F64 m2 e2 =
     fl (m1 * 2 ^ nat (e1 - min e1 e2) - m2 * 2 ^ nat (e2 - min e1 e2)) (min e1 e2)
   \<and> of_int (m1 * 2 ^ nat (e1 - min e1 e2) - m2 * 2 ^ nat (e2 - min e1 e2)) * 2 powi (min e1 e2)
     = f64_value (F64 m1 e1) - f64_value (F64 m2 e2)"
proof -
  have a: "(2::real) ^ nat (e1 - min e1 e2) * 2 powi (min e1 e2) = 2 powi e1"
    by (simp add: power_int_add [symmetric] flip: power_int_of_nat)
  have b: "(2::real) ^ nat (e2 - min e1 e2) * 2 powi (min e1 e2) = 2 powi e2"
    by (simp add: power_int_add [symmetric] flip: power_int_of_nat)
  have "of_int (m1 * 2 ^ nat (e1 - min e1 e2) - m2 * 2 ^ nat (e2 - min e1 e2)) * 2 powi (min e1 e2)
      = of_int m1 * ((2::real) ^ nat (e1 - min e1 e2) * 2 powi (min e1 e2))
        - of_int m2 * ((2::real) ^ nat (e2 - min e1 e2) * 2 powi (min e1 e2))"
    by (simp add: algebra_simps)
  then show ?thesis
    by (simp add: a b f64_value_def Let_def pow2_eq)
qed

text \<open>\<^verbatim>\<open>0.1 + 0.2\<close> is \<^verbatim>\<open>0.30000000000000004\<close>, that is \<open>1351079888211149 / 2 ^ 52\<close>.\<close>

lemma python_tenth_plus_fifth:
  "tenth + (tenth + tenth) = F64 1351079888211149 (-52)"
  by code_simp

text \<open>The sums and the difference used below are of normal size.\<close>

lemma sums_of_tenths_normal:
  "list_all binary64_normal
     [tenth, tenth + tenth, tenth + (tenth + tenth), (tenth + (tenth + tenth)) - tenth]"
  by code_simp

section \<open>Properties of the array operations\<close>

lemma length_cumsum_from: "length (cumsum_from acc xs) = length xs"
  by (induction xs arbitrary: acc) simp_all

lemma length_np_cumsum: "length (np_cumsum xs) = length xs"
  by (cases xs) (simp_all add: length_cumsum_from)

lemma length_funpow_np_cumsum: "length ((np_cumsum ^^ k) xs) = length xs"
  by (induction k) (simp_all add: length_np_cumsum)

lemma np_add_maps: "np_add (map f xs) (map g xs) = map (\<lambda>x. f x + g x) xs"
  by (induction xs) (simp_all add: np_add_def)

text \<open>
  In exact arithmetic the running sum of \<open>n\<close> copies of \<open>t\<close>, started from \<open>acc\<close>, is
  \<open>acc + t\<close>, \<open>acc + 2 t\<close>, ...
\<close>

lemma cumsum_from_replicate:
  fixes t :: real
  shows "cumsum_from acc (replicate n t) = map (\<lambda>i. acc + t * (real i + 1)) [0..<n]"
proof (induction n arbitrary: acc)
  case 0
  show ?case by simp
next
  case (Suc n)
  have "cumsum_from acc (replicate (Suc n) t) = (acc + t) # cumsum_from (acc + t) (replicate n t)"
    by simp
  also have "\<dots> = (acc + t) # map (\<lambda>i. (acc + t) + t * (real i + 1)) [0..<n]"
    by (simp add: Suc.IH)
  also have "\<dots> = map (\<lambda>i. acc + t * (real i + 1)) [0..<Suc n]"
    by (simp add: upt_conv_Cons map_Suc_upt[symmetric] algebra_simps del: upt_Suc)
  finally show ?case .
qed

lemma np_cumsum_np_repeat:
  fixes t :: real
  shows "np_cumsum (np_repeat t n) = map (\<lambda>i. t * (real i + 1)) [0..<n]"
proof (cases n)
  case 0
  then show ?thesis by (simp add: np_repeat_def)
next
  case (Suc m)
  have "np_cumsum (np_repeat t (Suc m)) = t # map (\<lambda>i. t + t * (real i + 1)) [0..<m]"
    by (simp add: np_repeat_def cumsum_from_replicate)
  also have "\<dots> = map (\<lambda>i. t * (real i + 1)) [0..<Suc m]"
    by (simp add: upt_conv_Cons map_Suc_upt[symmetric] algebra_simps del: upt_Suc)
  finally show ?thesis using Suc by simp
qed

text \<open>Where addition and subtraction cancel, differencing undoes a cumulative sum.\<close>

lemma diff_from_cumsum_from:
  fixes acc :: "'a::ab_group_add"
  shows "diff_from acc (cumsum_from acc xs) = xs"
  by (induction xs arbitrary: acc) simp_all

lemma backward_diff_np_cumsum:
  fixes xs :: "'a::ab_group_add list"
  shows "backward_diff (np_cumsum xs) = xs"
  by (cases xs) (simp_all add: backward_diff_def diff_from_cumsum_from)

lemma backward_diff_funpow_cumsum:
  fixes xs :: "'a::ab_group_add list"
  shows "(backward_diff ^^ m) ((np_cumsum ^^ m) xs) = xs"
proof (induction m arbitrary: xs)
  case 0
  show ?case by simp
next
  case (Suc m)
  have "(backward_diff ^^ Suc m) ((np_cumsum ^^ Suc m) xs)
      = (backward_diff ^^ m) (backward_diff (np_cumsum ((np_cumsum ^^ m) xs)))"
    by (simp add: funpow_swap1)
  also have "\<dots> = (backward_diff ^^ m) ((np_cumsum ^^ m) xs)"
    by (simp add: backward_diff_np_cumsum)
  finally show ?case using Suc.IH by simp
qed

section \<open>What a call of the generator does\<close>

lemma generate_events:
  "fst (generate_arima_data L fresh phi theta k n rs sg b lt v) =
     (if v
      then [ArmaProcess (1 # map uminus phi) (1 # theta) n,
            Print_stationary (isstationary L (1 # map uminus phi) (1 # theta)),
            Print_invertible (isinvertible L (1 # map uminus phi) (1 # theta))]
      else [])
     @ [Arma_generate_sample (1 # map uminus phi) (1 # theta) n sg b]"
  by (simp add: generate_arima_data_def Let_def)

lemma generate_series:
  "snd (generate_arima_data L fresh phi theta k n rs sg b lt v) =
     (np_cumsum ^^ nat k)
       (case lt of
          None \<Rightarrow> map (arma_generate_sample L (1 # map uminus phi) (1 # theta) n sg
                        (case rs of None \<Rightarrow> fresh | Some r \<Rightarrow> r) b) [0..<n]
        | Some t \<Rightarrow> np_add (map (arma_generate_sample L (1 # map uminus phi) (1 # theta) n sg
                        (case rs of None \<Rightarrow> fresh | Some r \<Rightarrow> r) b) [0..<n])
                      (np_cumsum (np_repeat t n)))"
  by (simp add: generate_arima_data_def Let_def)

lemma length_generate:
  "length (snd (generate_arima_data L fresh phi theta k n rs sg b lt v)) = n"
  by (simp add: generate_series length_funpow_np_cumsum np_add_def np_repeat_def
      length_np_cumsum split: option.split)

lemma estimator_calls_generate:
  "estimator_calls (fst (generate_arima_data L fresh phi theta k n rs sg b lt v)) = []"
  by (simp add: generate_events estimator_calls_def)



section \<open>What a run of the driver does\<close>

lemma arima_series:
  "series (arima_data L fresh a) =
     snd (generate_arima_data L fresh
            (py_prefix [ar_lag1 a, ar_lag2 a, ar_lag3 a, ar_lag4 a] (ar_order a))
            (py_prefix [ma_lag1 a, ma_lag2 a, ma_lag3 a, ma_lag4 a] (ma_order a))
            (i_order a) (n_samp a) (Some (RandomState L (rand_state a))) 1 10
            (lin_trend a) (verbose a))"
  by (simp add: arima_data_def Let_def split: prod.split sum.split)

lemma arima_fitting: "fitting (arima_data L fresh a) = fit_gate a"
  by (simp add: arima_data_def Let_def split: prod.split sum.split)

text \<open>
  The estimator calls of a run: none when the gate is closed; otherwise the model is
  built and fitted, and the prediction follows if both index lookups succeed.
\<close>

lemma arima_estimator_calls:
  "estimator_calls (events (arima_data L fresh a)) =
     (if fit_gate a then
        [SARIMAX (py_prefix (series (arima_data L fresh a)) (n_train a)) (p a, d a, q a) ''n''
           False False,
         Fit]
        @ (case prediction_span (n_samp a)
                  (loglikelihood_burn L (py_prefix (series (arima_data L fresh a)) (n_train a))
                     (p a, d a, q a))
                  (n_train a) (n_forecast a) of
             Inl e \<Rightarrow> []
           | Inr (pred_begin, pred_end) \<Rightarrow>
               [Get_prediction (strftime pred_begin) (strftime pred_end) (dynamic a),
                Conf_int (5 / 100)])
      else [])"
proof -
  obtain evs ys where g: "generate_arima_data L fresh
            (py_prefix [ar_lag1 a, ar_lag2 a, ar_lag3 a, ar_lag4 a] (ar_order a))
            (py_prefix [ma_lag1 a, ma_lag2 a, ma_lag3 a, ma_lag4 a] (ma_order a))
            (i_order a) (n_samp a) (Some (RandomState L (rand_state a))) 1 10
            (lin_trend a) (verbose a) = (evs, ys)"
    by (metis surj_pair)
  have e: "estimator_calls evs = []"
    using estimator_calls_generate [where L = L and fresh = fresh and k = "i_order a"
        and n = "n_samp a" and sg = 1 and b = 10 and lt = "lin_trend a" and v = "verbose a"] g
    by (metis fst_conv)
  have l: "length ys = n_samp a"
    using length_generate [where L = L and fresh = fresh and k = "i_order a"
        and n = "n_samp a" and sg = 1 and b = 10 and lt = "lin_trend a" and v = "verbose a"] g
    by (metis snd_conv)
  have f: "filter is_estimator_call evs = []"
    using e by (simp add: estimator_calls_def)
  show ?thesis
    by (simp add: arima_data_def Let_def g l f estimator_calls_def split: sum.split prod.split)
qed

lemma arima_raised:
  "raised (arima_data L fresh a) =
     (if fit_gate a then
        (case prediction_span (n_samp a)
                  (loglikelihood_burn L (py_prefix (series (arima_data L fresh a)) (n_train a))
                     (p a, d a, q a))
                  (n_train a) (n_forecast a) of
             Inl e \<Rightarrow> Some e
           | Inr s \<Rightarrow> None)
      else None)"
proof -
  obtain evs ys where g: "generate_arima_data L fresh
            (py_prefix [ar_lag1 a, ar_lag2 a, ar_lag3 a, ar_lag4 a] (ar_order a))
            (py_prefix [ma_lag1 a, ma_lag2 a, ma_lag3 a, ma_lag4 a] (ma_order a))
            (i_order a) (n_samp a) (Some (RandomState L (rand_state a))) 1 10
            (lin_trend a) (verbose a) = (evs, ys)"
    by (metis surj_pair)
  have l: "length ys = n_samp a"
    using length_generate [where L = L and fresh = fresh and k = "i_order a"
        and n = "n_samp a" and sg = 1 and b = 10 and lt = "lin_trend a" and v = "verbose a"] g
    by (metis snd_conv)
  show ?thesis
    by (simp add: arima_data_def Let_def g l split: sum.split prod.split)
qed

lemma sarimax_settings_filter:
  "sarimax_settings (filter is_estimator_call evs) = sarimax_settings evs"
  by (induction evs rule: sarimax_settings.induct) simp_all

lemma arima_sarimax_settings:
  "sarimax_settings (events (arima_data L fresh a)) =
     (if fit_gate a then [(''n'', False, False)] else [])"
proof -
  have "sarimax_settings (events (arima_data L fresh a)) =
        sarimax_settings (estimator_calls (events (arima_data L fresh a)))"
    by (simp add: estimator_calls_def sarimax_settings_filter)
  also have "\<dots> = (if fit_gate a then [(''n'', False, False)] else [])"
    by (simp add: arima_estimator_calls split: sum.split prod.split)
  finally show ?thesis .
qed

lemma prediction_requests_filter:
  "prediction_requests (filter is_estimator_call evs) = prediction_requests evs"
  by (induction evs rule: prediction_requests.induct) simp_all

lemma arima_prediction_requests:
  "prediction_requests (events (arima_data L fresh a)) =
     prediction_requests (estimator_calls (events (arima_data L fresh a)))"
  by (simp add: estimator_calls_def prediction_requests_filter)

lemma simulation_polys_append:
  "simulation_polys (xs @ ys) = simulation_polys xs @ simulation_polys ys"
  by (induction xs rule: simulation_polys.induct) simp_all

lemma arima_simulation_polys:
  "simulation_polys (events (arima_data L fresh a)) =
     [(1 # map uminus (py_prefix [ar_lag1 a, ar_lag2 a, ar_lag3 a, ar_lag4 a] (ar_order a)),
       1 # py_prefix [ma_lag1 a, ma_lag2 a, ma_lag3 a, ma_lag4 a] (ma_order a))]"
  by (simp add: arima_data_def generate_arima_data_def Let_def simulation_polys_append
      split: sum.split prod.split)

lemma fit_gate_lin_trend: "fit_gate (a\<lparr>lin_trend := lt\<rparr>) = fit_gate a"
  by (simp add: fit_gate_def)

lemma fit_gate_ar1_args: "fit_gate ar1_args"
  by (simp add: fit_gate_def ar1_args_def default_args_def)




section \<open>Runs in which a call raises\<close>

lemma calls_until_raise_prefix: "prefix (fst (calls_until_raise R i evs)) evs"
  by (induction evs arbitrary: i) (simp_all split: option.split)

lemma calls_until_raise_all:
  "snd (calls_until_raise R i evs) = None \<Longrightarrow> fst (calls_until_raise R i evs) = evs"
  by (induction evs arbitrary: i) (auto split: option.splits)

lemma calls_until_raise_none_raises: "calls_until_raise none_raises i evs = (evs, None)"
  by (induction evs arbitrary: i) (simp_all add: none_raises_def)

lemma observed_calls_prefix:
  "prefix (calls (arima_data_observed R L fresh a)) (events (arima_data L fresh a))"
  using calls_until_raise_prefix [of R 0 "events (arima_data L fresh a)"]
  by (simp add: arima_data_observed_def Let_def)

lemma observed_exception:
  "exception (arima_data_observed R L fresh a) =
     (case snd (calls_until_raise R 0 (events (arima_data L fresh a))) of
        Some x \<Rightarrow> Some x
      | None \<Rightarrow> raised (arima_data L fresh a))"
  by (simp add: arima_data_observed_def Let_def)

lemma observed_all_calls:
  assumes "snd (calls_until_raise R 0 (events (arima_data L fresh a))) = None"
  shows "calls (arima_data_observed R L fresh a) = events (arima_data L fresh a)"
  using assms calls_until_raise_all [of R 0 "events (arima_data L fresh a)"]
  by (simp add: arima_data_observed_def Let_def)

lemma prediction_span_in_range:
  assumes "0 \<le> burn" and "burn < int len" and "0 \<le> ntrain" and "ntrain < int len"
    and "- 3747 \<le> ntrain + nforecast - 1" and "ntrain + nforecast - 1 \<le> 3267"
  shows "prediction_span len burn ntrain nforecast = Inr (burn, ntrain + nforecast - 1)"
  using assms by (simp add: prediction_span_def df_index_def add_months_def)








section \<open>The claims\<close>

subsection \<open>C1: the gate for fitting\<close>

text \<open>
  The claim reads the gate as: some coefficient used for generation, at any lag up to
  the declared order, is nonzero, and \<open>p > 0\<close> or \<open>q > 0\<close>. The source tests the
  lag-1 sliders only. An AR(2) series with coefficients \<open>(0, 0.5)\<close> and model order
  \<open>p = 1\<close> satisfies the gate of the claim, and the driver fits nothing.
\<close>

theorem gate_ignores_higher_lags_counterexample:
  "spec_gate (default_args\<lparr>ar_order := 2, ar_lag2 := 1 / 2, p := 1\<rparr>)
   \<and> \<not> fitting (arima_data (quiet_libs :: (real, int) libs) 0
                  (default_args\<lparr>ar_order := 2, ar_lag2 := 1 / 2, p := 1\<rparr>))
   \<and> estimator_calls (events (arima_data (quiet_libs :: (real, int) libs) 0
                  (default_args\<lparr>ar_order := 2, ar_lag2 := 1 / 2, p := 1\<rparr>))) = []"
  by (simp add: spec_gate_def arima_fitting arima_estimator_calls fit_gate_def
      default_args_def py_prefix_def)

text \<open>
  C1, as amended: for every invocation of the driver, a model is fitted if and only if
  (\<open>ar_order > 0\<close> and the lag-1 AR coefficient is nonzero, or \<open>ma_order > 0\<close> and the
  lag-1 MA coefficient is nonzero) and (\<open>p > 0\<close> or \<open>q > 0\<close>); the estimator is
  called exactly in that case.
\<close>

theorem fitting_iff_lag1_gate:
  "fitting (arima_data L fresh a) =
     (((0 < ar_order a \<and> ar_lag1 a \<noteq> 0) \<or> (0 < ma_order a \<and> ma_lag1 a \<noteq> 0))
      \<and> (0 < p a \<or> 0 < q a))
   \<and> (estimator_calls (events (arima_data L fresh a)) \<noteq> []) = fitting (arima_data L fresh a)"
proof -
  have g: "fitting (arima_data L fresh a) = fit_gate a"
    by (rule arima_fitting)
  have c: "(estimator_calls (events (arima_data L fresh a)) \<noteq> []) = fit_gate a"
    by (simp add: arima_estimator_calls)
  show ?thesis
    using g c by (simp add: fit_gate_def)
qed

theorem fitting_iff_lag1_gate_witness:
  "fitting (arima_data (quiet_libs :: (real, int) libs) 0 ar1_args)
   \<and> estimator_calls (events (arima_data (quiet_libs :: (real, int) libs) 0 ar1_args)) \<noteq> []
   \<and> \<not> fitting (arima_data (quiet_libs :: (real, int) libs) 0 default_args)
   \<and> estimator_calls (events (arima_data (quiet_libs :: (real, int) libs) 0 default_args)) = []"
  using fitting_iff_lag1_gate [where L = "quiet_libs :: (real, int) libs" and fresh = 0
      and a = ar1_args]
    fitting_iff_lag1_gate [where L = "quiet_libs :: (real, int) libs" and fresh = 0
      and a = default_args]
  by (auto simp add: ar1_args_def default_args_def)

subsection \<open>C2: the linear trend\<close>

text \<open>
  The claim has the ramp add \<open>t * i\<close> at index \<open>i\<close>, that is \<open>0\<close> at the first sample.
  The source adds \<^verbatim>\<open>np.cumsum(np.repeat(lin_trend, n_samp))\<close>, whose first element is
  \<open>t\<close>. With slope \<open>2\<close> and three samples, the series with trend minus the series
  without is \<open>2, 4, 6\<close>, where the claim has \<open>0, 2, 4\<close>.
\<close>

theorem trend_ramp_counterexample:
  "map2 (-) (snd (generate_arima_data (quiet_libs :: (real, int) libs) 0 [] [] 0 3 (Some 42) 1 10
                    (Some 2) False))
            (snd (generate_arima_data (quiet_libs :: (real, int) libs) 0 [] [] 0 3 (Some 42) 1 10
                    None False))
     = [2, 4, 6]
   \<and> map (\<lambda>i. 2 * real i) [0..<3] = [0, 2, 4]"
  by (simp add: generate_series quiet_libs_def np_add_def np_repeat_def eval_nat_numeral)

text \<open>
  C2, as amended: when a slope \<open>t\<close> is given, the value added to the sample at index
  \<open>i\<close> (\<open>i = 0 .. n-1\<close>, before any integration step) is the running sum of \<open>i + 1\<close>
  copies of \<open>t\<close>, in exact arithmetic \<open>t * (i + 1)\<close>: \<open>t\<close> at the first sample and
  \<open>t * n\<close> at the last. The integration steps are applied to the sum.
\<close>

theorem trend_ramp_starts_at_slope:
  fixes L :: "(real, 's) libs"
  shows "snd (generate_arima_data L fresh phi theta k n rs sg b (Some t) v) =
     (np_cumsum ^^ nat k)
       (map (\<lambda>i. arma_generate_sample L (1 # map uminus phi) (1 # theta) n sg
                    (case rs of None \<Rightarrow> fresh | Some r \<Rightarrow> r) b i
                  + t * (real i + 1)) [0..<n])"
proof -
  have ramp: "np_cumsum (np_repeat t n) = map (\<lambda>i. t * (real i + 1)) [0..<n]"
    by (rule np_cumsum_np_repeat)
  have "np_add (map s [0..<n]) (map (\<lambda>i. t * (real i + 1)) [0..<n]) =
      map (\<lambda>i. s i + t * (real i + 1)) [0..<n]" for s :: "nat \<Rightarrow> real"
    by (rule np_add_maps)
  then show ?thesis
    by (simp add: generate_series ramp)
qed

theorem trend_ramp_starts_at_slope_witness:
  "snd (generate_arima_data (quiet_libs :: (real, int) libs) 0 [] [] 0 3 (Some 42) 1 10
          (Some 2) False) = [2, 4, 6]"
  using trend_ramp_starts_at_slope [where L = "quiet_libs :: (real, int) libs" and fresh = 0
      and phi = "[]" and theta = "[]" and k = 0 and n = 3 and rs = "Some 42" and sg = 1
      and b = 10 and t = 2 and v = False]
  by (simp add: quiet_libs_def eval_nat_numeral)

subsection \<open>C3: integration and differencing\<close>

text \<open>
  The claim has the \<open>d\<close>-fold backward difference of the output with integration order
  \<open>d\<close> equal the output with order \<open>0\<close> exactly. The series is an array of binary64
  numbers, and a rounded sum is not undone by a rounded difference. Take \<^verbatim>\<open>sigma=0\<close>, so
  that every innovation is scaled to zero and the simulated sample is zero whatever the
  generator draws, no AR or MA coefficients, two samples and \<^verbatim>\<open>lin_trend=0.1\<close>. With
  \<^verbatim>\<open>i_order=0\<close> the output is \<open>0.1, 0.2\<close>. With \<^verbatim>\<open>i_order=1\<close> it is
  \<open>0.1, 0.30000000000000004\<close>, whose difference is \<open>0.1, 0.20000000000000004\<close>.
\<close>

theorem differencing_rounds_counterexample:
  "(backward_diff ^^ nat 1)
      (snd (generate_arima_data (quiet_libs :: (f64, int) libs) 0 [] [] 1 2 (Some 42) 0 10
              (Some tenth) False))
     = [F64 3602879701896397 (-55), F64 7205759403792795 (-55)]
   \<and> snd (generate_arima_data (quiet_libs :: (f64, int) libs) 0 [] [] 0 2 (Some 42) 0 10
              (Some tenth) False)
     = [F64 3602879701896397 (-55), F64 3602879701896397 (-54)]
   \<and> (backward_diff ^^ nat 1)
      (snd (generate_arima_data (quiet_libs :: (f64, int) libs) 0 [] [] 1 2 (Some 42) 0 10
              (Some tenth) False))
     \<noteq> snd (generate_arima_data (quiet_libs :: (f64, int) libs) 0 [] [] 0 2 (Some 42) 0 10
              (Some tenth) False)"
  by code_simp

text \<open>
  C3, as amended: in exact (real) arithmetic, for every integration order \<open>d\<close> and
  every seed, coefficient vectors, noise scale, burn-in and trend, the backward
  difference (taken against an initial value \<open>0\<close>) applied \<open>d\<close> times to the output
  with integration order \<open>d\<close> is the output with integration order \<open>0\<close> and otherwise
  identical parameters; and with integration order \<open>0\<close> the generator returns the
  simulated sample, with the trend added when one is given, unchanged by the
  integration step.
\<close>

theorem differencing_undoes_integration_exactly:
  fixes L :: "(real, 's) libs"
  shows "(backward_diff ^^ nat k) (snd (generate_arima_data L fresh phi theta k n rs sg b lt v)) =
     snd (generate_arima_data L fresh phi theta 0 n rs sg b lt v)
   \<and> snd (generate_arima_data L fresh phi theta 0 n rs sg b lt v) =
     (case lt of
        None \<Rightarrow> map (arma_generate_sample L (1 # map uminus phi) (1 # theta) n sg
                      (case rs of None \<Rightarrow> fresh | Some r \<Rightarrow> r) b) [0..<n]
      | Some t \<Rightarrow> np_add (map (arma_generate_sample L (1 # map uminus phi) (1 # theta) n sg
                      (case rs of None \<Rightarrow> fresh | Some r \<Rightarrow> r) b) [0..<n])
                    (np_cumsum (np_repeat t n)))"
proof -
  define y1 where "y1 = snd (generate_arima_data L fresh phi theta 0 n rs sg b lt v)"
  have "snd (generate_arima_data L fresh phi theta k n rs sg b lt v) = (np_cumsum ^^ nat k) y1"
    by (simp add: y1_def generate_series)
  then have "(backward_diff ^^ nat k)
      (snd (generate_arima_data L fresh phi theta k n rs sg b lt v)) =
      (backward_diff ^^ nat k) ((np_cumsum ^^ nat k) y1)"
    by simp
  also have "\<dots> = y1"
    by (rule backward_diff_funpow_cumsum)
  finally have undo: "(backward_diff ^^ nat k)
      (snd (generate_arima_data L fresh phi theta k n rs sg b lt v)) = y1" .
  have "snd (generate_arima_data L fresh phi theta 0 n rs sg b lt v) =
     (case lt of
        None \<Rightarrow> map (arma_generate_sample L (1 # map uminus phi) (1 # theta) n sg
                      (case rs of None \<Rightarrow> fresh | Some r \<Rightarrow> r) b) [0..<n]
      | Some t \<Rightarrow> np_add (map (arma_generate_sample L (1 # map uminus phi) (1 # theta) n sg
                      (case rs of None \<Rightarrow> fresh | Some r \<Rightarrow> r) b) [0..<n])
                    (np_cumsum (np_repeat t n)))"
    by (simp add: generate_series)
  then show ?thesis
    using undo by (simp add: y1_def)
qed

theorem differencing_undoes_integration_exactly_witness:
  "(backward_diff ^^ nat 2)
      (snd (generate_arima_data (quiet_libs :: (real, int) libs) 0 [1 / 2] [] 2 3 (Some 42) 1 10
              (Some 2) False))
     = [2, 4, 6]"
  using differencing_undoes_integration_exactly [where L = "quiet_libs :: (real, int) libs"
      and fresh = 0 and phi = "[1 / 2]" and theta = "[]" and k = 2 and n = 3 and rs = "Some 42"
      and sg = 1 and b = 10 and lt = "Some 2" and v = False]
  by (simp add: generate_series quiet_libs_def np_add_def np_repeat_def eval_nat_numeral)

subsection \<open>C4: determinism of the seeded path\<close>

text \<open>
  C4: the driver seeds a new generator from \<^verbatim>\<open>rand_state\<close> and hands it to
  \<^verbatim>\<open>generate_arima_data\<close>, so the branch that would create an unseeded generator is not
  taken: two invocations with the same arguments give the same run, series included,
  whatever state an unseeded generator would have had at either call.
\<close>

theorem seeded_generation_deterministic:
  "arima_data L fresh1 a = arima_data L fresh2 a"
  by (simp add: arima_data_def generate_arima_data_def Let_def)

theorem seeded_generation_deterministic_witness:
  "series (arima_data seed_echo_libs 1 ar1_args) = series (arima_data seed_echo_libs 2 ar1_args)"
  using seeded_generation_deterministic [where L = seed_echo_libs
      and ?fresh1.0 = 1 and ?fresh2.0 = 2 and a = ar1_args]
  by simp

text \<open>
  The generator by itself, called without \<^verbatim>\<open>rng_state\<close>, does depend on that state:
  the property belongs to the path through the driver.
\<close>

lemma unseeded_generation_uses_fresh_state:
  "snd (generate_arima_data seed_echo_libs 1 [] [] 0 2 None 1 10 None False) = [1, 1]
   \<and> snd (generate_arima_data seed_echo_libs 2 [] [] 0 2 None 1 10 None False) = [2, 2]"
  by (simp add: generate_series seed_echo_libs_def quiet_libs_def eval_nat_numeral)

subsection \<open>C5: the trend argument of the estimator\<close>

text \<open>
  C5: whatever the value of \<^verbatim>\<open>lin_trend\<close> (\<^verbatim>\<open>None\<close>, zero, positive or negative), every
  SARIMAX model the driver constructs is given \<^verbatim>\<open>trend='n'\<close>; one model is constructed
  when the gate is open and none otherwise, and the gate does not look at \<^verbatim>\<open>lin_trend\<close>.
\<close>

theorem sarimax_trend_always_n:
  "map fst (sarimax_settings (events (arima_data L fresh (a\<lparr>lin_trend := lt\<rparr>)))) =
     (if fit_gate a then [''n''] else [])"
proof -
  have "sarimax_settings (events (arima_data L fresh (a\<lparr>lin_trend := lt\<rparr>))) =
      (if fit_gate (a\<lparr>lin_trend := lt\<rparr>) then [(''n'', False, False)] else [])"
    by (rule arima_sarimax_settings)
  then show ?thesis
    by (simp add: fit_gate_lin_trend)
qed

theorem sarimax_trend_always_n_witness:
  "map fst (sarimax_settings (events (arima_data (quiet_libs :: (real, int) libs) 0
       (ar1_args\<lparr>lin_trend := Some (3 / 10)\<rparr>)))) = [''n'']
   \<and> map fst (sarimax_settings (events (arima_data (quiet_libs :: (real, int) libs) 0
       (ar1_args\<lparr>lin_trend := Some (- 1)\<rparr>)))) = [''n'']
   \<and> map fst (sarimax_settings (events (arima_data (quiet_libs :: (real, int) libs) 0
       (ar1_args\<lparr>lin_trend := None\<rparr>)))) = [''n'']"
  using sarimax_trend_always_n
      [where L = "quiet_libs :: (real, int) libs" and fresh = 0 and a = ar1_args
         and lt = "Some (3 / 10)"]
    sarimax_trend_always_n
      [where L = "quiet_libs :: (real, int) libs" and fresh = 0 and a = ar1_args
         and lt = "Some (- 1)"]
    sarimax_trend_always_n
      [where L = "quiet_libs :: (real, int) libs" and fresh = 0 and a = ar1_args and lt = None]
    fit_gate_ar1_args
  by simp

subsection \<open>C6: the polynomials handed to the simulation\<close>

text \<open>
  C6: for all coefficient vectors \<open>phi\<close> and \<open>theta\<close> the generator calls the ARMA
  simulation routine once, with the AR polynomial \<open>[1, -phi1, -phi2, ...]\<close> and the MA
  polynomial \<open>[1, theta1, theta2, ...]\<close>; without trend and integration the returned
  series is the array the routine returns for these polynomials.
\<close>

theorem polynomials_passed_to_simulation:
  "simulation_polys (fst (generate_arima_data L fresh phi theta k n rs sg b lt v)) =
     [(1 # map uminus phi, 1 # theta)]
   \<and> snd (generate_arima_data L fresh phi theta 0 n rs sg b None v) =
     map (arma_generate_sample L (1 # map uminus phi) (1 # theta) n sg
            (case rs of None \<Rightarrow> fresh | Some r \<Rightarrow> r) b) [0..<n]"
  by (simp add: generate_events generate_series)

theorem polynomials_passed_to_simulation_witness:
  "simulation_polys (fst (generate_arima_data (quiet_libs :: (real, int) libs) 0
       [1 / 2, - (1 / 4)] [3 / 10] 1 5 (Some 42) 1 10 None True)) =
     [([1, - (1 / 2), 1 / 4], [1, 3 / 10])]"
  using polynomials_passed_to_simulation [where L = "quiet_libs :: (real, int) libs"
      and fresh = 0 and phi = "[1 / 2, - (1 / 4)]" and theta = "[3 / 10]" and k = 1 and n = 5
      and rs = "Some 42" and sg = 1 and b = 10 and lt = None and v = True]
  by simp

subsection \<open>C7: stationarity and invertibility are reported, not enforced\<close>






subsection \<open>C8: the prediction request\<close>

text \<open>
  The claim is stated for every run in which fitting proceeds. The end of the request is
  \<^verbatim>\<open>df.index[n_train] + pd.DateOffset(months=n_forecast - 1)\<close>, and the index has
  \<^verbatim>\<open>n_samp\<close> entries. With \<^verbatim>\<open>n_train = n_samp = 120\<close> the model is fitted, the lookup
  raises \<^verbatim>\<open>IndexError\<close> and no prediction is requested. With \<^verbatim>\<open>n_train = -1\<close> the lookup
  yields the last date of the index, and the request ends in November 2001, not
  \<open>-1 + 24 - 1 = 22\<close> months after January 1990, which is November 1991. Both runs are
  those in which every library call returns.
\<close>

theorem prediction_request_span_counterexample:
  "fitting (arima_data (quiet_libs :: (real, int) libs) 0 (ar1_args\<lparr>n_train := 120\<rparr>))
   \<and> raised (arima_data (quiet_libs :: (real, int) libs) 0 (ar1_args\<lparr>n_train := 120\<rparr>))
       = Some IndexError
   \<and> prediction_requests
         (events (arima_data (quiet_libs :: (real, int) libs) 0 (ar1_args\<lparr>n_train := 120\<rparr>)))
       = []
   \<and> fitting (arima_data (quiet_libs :: (real, int) libs) 0 (ar1_args\<lparr>n_train := - 1\<rparr>))
   \<and> map (fst \<circ> snd) (prediction_requests
         (events (arima_data (quiet_libs :: (real, int) libs) 0 (ar1_args\<lparr>n_train := - 1\<rparr>))))
       = [(2001, 11, 1)]
   \<and> strftime (- 1 + 24 - 1) = (1991, 11, 1)"
  by (simp add: arima_fitting arima_raised arima_prediction_requests arima_estimator_calls
      fit_gate_def ar1_args_def default_args_def quiet_libs_def prediction_span_def
      add_months_def df_index_def strftime_def)

text \<open>
  C8, as amended: whenever fitting proceeds, \<open>0 \<le> n_train < n_samp \<le> 3268\<close>, the
  burn-in offset of the fit lies in \<open>0 .. n_samp - 1\<close> and the date
  \<open>n_train + n_forecast - 1\<close> months after the origin is a pandas timestamp (October 1677
  to April 2262, as are then all dates of the index), the
  estimator calls the driver makes are, in order, an initial part of: the construction of
  the model on the first \<open>n_train\<close> values, its fit, one prediction request from the
  index date at the burn-in offset through that date, and a confidence interval at
  \<open>alpha = 0.05\<close>. When no library call raises, all four are made and the driver raises
  nothing.
\<close>

theorem prediction_request_span:
  assumes "fit_gate a"
    and "0 \<le> n_train a" and "n_train a < int (n_samp a)"
    and "0 \<le> loglikelihood_burn L (take (nat (n_train a)) (series (arima_data L fresh a)))
                 (p a, d a, q a)"
    and "loglikelihood_burn L (take (nat (n_train a)) (series (arima_data L fresh a)))
           (p a, d a, q a) < int (n_samp a)"
    and "- 3747 \<le> n_train a + n_forecast a - 1" and "n_train a + n_forecast a - 1 \<le> 3267"
    and "n_samp a \<le> 3268"
  shows "prefix (estimator_calls (calls (arima_data_observed R L fresh a)))
       [SARIMAX (take (nat (n_train a)) (series (arima_data L fresh a))) (p a, d a, q a) ''n''
          False False,
        Fit,
        Get_prediction
          (strftime (loglikelihood_burn L (take (nat (n_train a)) (series (arima_data L fresh a)))
                       (p a, d a, q a)))
          (strftime (n_train a + n_forecast a - 1))
          (dynamic a),
        Conf_int (5 / 100)]
   \<and> (snd (calls_until_raise R 0 (events (arima_data L fresh a))) = None \<longrightarrow>
        estimator_calls (calls (arima_data_observed R L fresh a)) =
          [SARIMAX (take (nat (n_train a)) (series (arima_data L fresh a))) (p a, d a, q a) ''n''
             False False,
           Fit,
           Get_prediction
             (strftime (loglikelihood_burn L
                          (take (nat (n_train a)) (series (arima_data L fresh a))) (p a, d a, q a)))
             (strftime (n_train a + n_forecast a - 1))
             (dynamic a),
           Conf_int (5 / 100)]
        \<and> exception (arima_data_observed R L fresh a) = None)"
proof -
  let ?burn = "loglikelihood_burn L (take (nat (n_train a)) (series (arima_data L fresh a)))
      (p a, d a, q a)"
  let ?all = "[SARIMAX (take (nat (n_train a)) (series (arima_data L fresh a))) (p a, d a, q a) ''n''
          False False,
        Fit,
        Get_prediction (strftime ?burn) (strftime (n_train a + n_forecast a - 1)) (dynamic a),
        Conf_int (5 / 100)]"
  have tr: "py_prefix (series (arima_data L fresh a)) (n_train a) =
      take (nat (n_train a)) (series (arima_data L fresh a))"
    using assms(2) by (simp add: py_prefix_def)
  have span: "prediction_span (n_samp a) ?burn (n_train a) (n_forecast a) =
      Inr (?burn, n_train a + n_forecast a - 1)"
    by (rule prediction_span_in_range [OF assms(4,5,2,3,6,7)])
  have full: "estimator_calls (events (arima_data L fresh a)) = ?all"
    using assms(1) by (simp add: arima_estimator_calls tr span)
  have none: "raised (arima_data L fresh a) = None"
    using assms(1) by (simp add: arima_raised tr span)
  have "prefix (estimator_calls (calls (arima_data_observed R L fresh a)))
      (estimator_calls (events (arima_data L fresh a)))"
    unfolding estimator_calls_def
    by (rule filter_mono_prefix) (rule observed_calls_prefix)
  then have safe: "prefix (estimator_calls (calls (arima_data_observed R L fresh a))) ?all"
    by (simp only: full)
  have live: "estimator_calls (calls (arima_data_observed R L fresh a)) = ?all
      \<and> exception (arima_data_observed R L fresh a) = None"
    if "snd (calls_until_raise R 0 (events (arima_data L fresh a))) = None"
    using that full none by (simp add: observed_all_calls observed_exception)
  show ?thesis
    using safe live by blast
qed

theorem prediction_request_span_witness:
  "fit_gate ar1_args \<and> 0 \<le> n_train ar1_args \<and> n_train ar1_args < int (n_samp ar1_args)
   \<and> prediction_requests
       (calls (arima_data_observed none_raises (quiet_libs :: (real, int) libs) 0 ar1_args)) =
       [((1990, 2, 1), (2000, 12, 1), False)]
   \<and> exception (arima_data_observed none_raises (quiet_libs :: (real, int) libs) 0 ar1_args) = None"
proof -
  let ?L = "quiet_libs :: (real, int) libs"
  have g: "fit_gate ar1_args"
    by (rule fit_gate_ar1_args)
  have n: "0 \<le> n_train ar1_args" "n_train ar1_args < int (n_samp ar1_args)"
    by (simp_all add: ar1_args_def default_args_def)
  have b: "0 \<le> loglikelihood_burn ?L
                 (take (nat (n_train ar1_args)) (series (arima_data ?L 0 ar1_args)))
                 (p ar1_args, d ar1_args, q ar1_args)"
     "loglikelihood_burn ?L
                 (take (nat (n_train ar1_args)) (series (arima_data ?L 0 ar1_args)))
                 (p ar1_args, d ar1_args, q ar1_args) < int (n_samp ar1_args)"
    by (simp_all add: quiet_libs_def ar1_args_def default_args_def)
  have e: "- 3747 \<le> n_train ar1_args + n_forecast ar1_args - 1"
      "n_train ar1_args + n_forecast ar1_args - 1 \<le> 3267"
      "n_samp ar1_args \<le> 3268"
    by (simp_all add: ar1_args_def default_args_def)
  have q: "snd (calls_until_raise none_raises 0 (events (arima_data ?L 0 ar1_args))) = None"
    by (simp add: calls_until_raise_none_raises)
  have s: "strftime 1 = (1990, 2, 1)" "strftime (108 + 24 - 1) = (2000, 12, 1)"
    by (simp_all add: strftime_def)
  note T = prediction_request_span [OF g n b e, where R = none_raises]
  have c: "estimator_calls (calls (arima_data_observed none_raises ?L 0 ar1_args)) =
      [SARIMAX (take (nat (n_train ar1_args)) (series (arima_data ?L 0 ar1_args)))
         (p ar1_args, d ar1_args, q ar1_args) ''n'' False False,
       Fit,
       Get_prediction
         (strftime (loglikelihood_burn ?L
            (take (nat (n_train ar1_args)) (series (arima_data ?L 0 ar1_args)))
            (p ar1_args, d ar1_args, q ar1_args)))
         (strftime (n_train ar1_args + n_forecast ar1_args - 1))
         (dynamic ar1_args),
       Conf_int (5 / 100)]"
    and x: "exception (arima_data_observed none_raises ?L 0 ar1_args) = None"
    using T q by blast+
  have "prediction_requests (calls (arima_data_observed none_raises ?L 0 ar1_args)) =
      prediction_requests (estimator_calls (calls (arima_data_observed none_raises ?L 0 ar1_args)))"
    by (simp add: estimator_calls_def prediction_requests_filter)
  also have "\<dots> = prediction_requests
      [SARIMAX (take (nat (n_train ar1_args)) (series (arima_data ?L 0 ar1_args)))
         (p ar1_args, d ar1_args, q ar1_args) ''n'' False False,
       Fit,
       Get_prediction
         (strftime (loglikelihood_burn ?L
            (take (nat (n_train ar1_args)) (series (arima_data ?L 0 ar1_args)))
            (p ar1_args, d ar1_args, q ar1_args)))
         (strftime (n_train ar1_args + n_forecast ar1_args - 1))
         (dynamic ar1_args),
       Conf_int (5 / 100)]"
    by (simp only: c)
  also have "\<dots> = [((1990, 2, 1), (2000, 12, 1), False)]"
    using s by (simp add: quiet_libs_def ar1_args_def default_args_def)
  finally show ?thesis
    using g n x by simp
qed

subsection \<open>C10: the coefficient vectors follow the declared orders\<close>

text \<open>
  C10: for declared orders \<open>ar_order\<close> and \<open>ma_order\<close> in \<open>0 .. 4\<close>, the generator
  receives the first \<open>ar_order\<close> of the four AR sliders and the first \<open>ma_order\<close> of the
  four MA sliders (and builds the polynomials of the simulation from them); the lengths
  of the two vectors are the declared orders; and changing sliders at lags beyond the
  declared order does not change the generated series.
\<close>

theorem coefficient_vectors_follow_orders:
  assumes "0 \<le> ar_order a" and "ar_order a \<le> 4" and "0 \<le> ma_order a" and "ma_order a \<le> 4"
    and "take (nat (ar_order a)) [x1, x2, x3, x4] =
         take (nat (ar_order a)) [ar_lag1 a, ar_lag2 a, ar_lag3 a, ar_lag4 a]"
    and "take (nat (ma_order a)) [z1, z2, z3, z4] =
         take (nat (ma_order a)) [ma_lag1 a, ma_lag2 a, ma_lag3 a, ma_lag4 a]"
  shows "series (arima_data L fresh a) =
       snd (generate_arima_data L fresh
              (take (nat (ar_order a)) [ar_lag1 a, ar_lag2 a, ar_lag3 a, ar_lag4 a])
              (take (nat (ma_order a)) [ma_lag1 a, ma_lag2 a, ma_lag3 a, ma_lag4 a])
              (i_order a) (n_samp a) (Some (RandomState L (rand_state a))) 1 10
              (lin_trend a) (verbose a))
   \<and> simulation_polys (events (arima_data L fresh a)) =
       [(1 # map uminus (take (nat (ar_order a)) [ar_lag1 a, ar_lag2 a, ar_lag3 a, ar_lag4 a]),
         1 # take (nat (ma_order a)) [ma_lag1 a, ma_lag2 a, ma_lag3 a, ma_lag4 a])]
   \<and> int (length (take (nat (ar_order a)) [ar_lag1 a, ar_lag2 a, ar_lag3 a, ar_lag4 a])) =
       ar_order a
   \<and> int (length (take (nat (ma_order a)) [ma_lag1 a, ma_lag2 a, ma_lag3 a, ma_lag4 a])) =
       ma_order a
   \<and> series (arima_data L fresh
         (a\<lparr>ar_lag1 := x1, ar_lag2 := x2, ar_lag3 := x3, ar_lag4 := x4,
            ma_lag1 := z1, ma_lag2 := z2, ma_lag3 := z3, ma_lag4 := z4\<rparr>)) =
       series (arima_data L fresh a)"
proof -
  have l1: "int (length (take (nat (ar_order a)) [ar_lag1 a, ar_lag2 a, ar_lag3 a, ar_lag4 a])) =
      ar_order a"
    using assms(1,2) by simp
  have l2: "int (length (take (nat (ma_order a)) [ma_lag1 a, ma_lag2 a, ma_lag3 a, ma_lag4 a])) =
      ma_order a"
    using assms(3,4) by simp
  show ?thesis
    using assms(1,3,5,6) l1 l2
    by (simp add: arima_series arima_simulation_polys py_prefix_def)
qed

theorem coefficient_vectors_follow_orders_witness:
  "series (arima_data (quiet_libs :: (real, int) libs) 0
       (ar1_args\<lparr>ar_lag1 := 1 / 2, ar_lag2 := 9 / 10, ar_lag3 := - 1, ar_lag4 := 1,
                 ma_lag1 := 7 / 10, ma_lag2 := 0, ma_lag3 := 1, ma_lag4 := 1\<rparr>)) =
     series (arima_data (quiet_libs :: (real, int) libs) 0 ar1_args)
   \<and> simulation_polys (events (arima_data (quiet_libs :: (real, int) libs) 0 ar1_args)) =
     [([1, - (1 / 2)], [1])]"
proof -
  have o: "0 \<le> ar_order ar1_args" "ar_order ar1_args \<le> 4"
      "0 \<le> ma_order ar1_args" "ma_order ar1_args \<le> 4"
    by (simp_all add: ar1_args_def default_args_def)
  have t1: "take (nat (ar_order ar1_args)) [1 / 2, 9 / 10, - 1, 1 :: real] =
      take (nat (ar_order ar1_args))
        [ar_lag1 ar1_args, ar_lag2 ar1_args, ar_lag3 ar1_args, ar_lag4 ar1_args]"
    by (simp add: ar1_args_def default_args_def)
  have t2: "take (nat (ma_order ar1_args)) [7 / 10, 0, 1, 1 :: real] =
      take (nat (ma_order ar1_args))
        [ma_lag1 ar1_args, ma_lag2 ar1_args, ma_lag3 ar1_args, ma_lag4 ar1_args]"
    by (simp add: ar1_args_def default_args_def)
  show ?thesis
    using coefficient_vectors_follow_orders
        [where L = "quiet_libs :: (real, int) libs" and fresh = 0, OF o t1 t2]
    by (simp add: ar1_args_def default_args_def)
qed

end
